theory Spec2Isabelle
  imports Complex_Main "HOL-Library.Sublist"
begin

section \<open>The tipping dashboard of \<^verbatim>\<open>app.py\<close>\<close>

text \<open>
  The program is a Shiny dashboard over \<^verbatim>\<open>tips.csv\<close>. Its logic is the reactive
  calculation \<^verbatim>\<open>tips_data\<close> (six column masks joined with \<^verbatim>\<open>&\<close>), four text
  outputs over the filtered frame, the scatter plot with its fitted line, and the effect
  \<^verbatim>\<open>reset_filters\<close>.

  Numbers. The numeric columns and the statistics are Python floats in the program. Here
  they are real numbers: every value is finite and arithmetic is exact. Comparisons of
  finite floats agree with the comparisons of the reals they denote, so the masks are
  modelled exactly; sums, means and the fitted line are the exact values that the
  floating-point results approximate. A frame holds no missing (NaN) cell.
\<close>

subsection \<open>Data: rows, inputs, session\<close>

text \<open>One line of \<^verbatim>\<open>tips.csv\<close>, in the column order of the file.\<close>

record row =
  total_bill :: real
  tip :: real
  sex :: string
  smoker :: string
  day :: string
  time :: string
  size_col :: int

text \<open>
  The six inputs declared in the sidebar: two range sliders, whose value is a pair
  \<open>(low, high)\<close>, and four checkbox groups, whose value is the sequence of ticked
  labels.
\<close>

record inputs =
  input_total_bill :: "real \<times> real"
  input_time :: "string list"
  input_sex :: "string list"
  input_smoker :: "string list"
  input_day :: "string list"
  input_size :: "int \<times> int"

text \<open>
  What a reactive function can reach: the frame that \<^verbatim>\<open>read_file\<close> returns (the
  parsed content of the file) and the current input values.
\<close>

record session =
  tips_csv :: "row list"
  input :: inputs

subsection \<open>The pandas operations used by the filter\<close>

text \<open>
  A frame is the list of its rows, top to bottom; a column is the list of its cells; a
  mask is a list of booleans. Each operation returns a new object and leaves its
  operands alone.
\<close>

definition column :: "(row \<Rightarrow> 'a) \<Rightarrow> row list \<Rightarrow> 'a list" where
  "column name frame = map name frame"

text \<open>\<^verbatim>\<open>Series.between(left, right)\<close>: both ends included.\<close>

definition series_between :: "'a::linorder list \<Rightarrow> 'a \<Rightarrow> 'a \<Rightarrow> bool list" where
  "series_between col left right = map (\<lambda>v. left \<le> v \<and> v \<le> right) col"

text \<open>\<^verbatim>\<open>Series.isin(values)\<close>.\<close>

definition series_isin :: "'a list \<Rightarrow> 'a list \<Rightarrow> bool list" where
  "series_isin col vals = map (\<lambda>v. v \<in> set vals) col"

text \<open>\<^verbatim>\<open>mask1 & mask2\<close>, cell by cell.\<close>

definition series_and :: "bool list \<Rightarrow> bool list \<Rightarrow> bool list" where
  "series_and m1 m2 = map (\<lambda>(a, b). a \<and> b) (zip m1 m2)"

text \<open>\<^verbatim>\<open>frame[mask]\<close>: the rows whose mask cell is true, in frame order.\<close>

definition getitem_mask :: "'a list \<Rightarrow> bool list \<Rightarrow> 'a list" where
  "getitem_mask frame bools = map fst (filter snd (zip frame bools))"

subsection \<open>Reading the session\<close>

definition read_file :: "session \<Rightarrow> row list \<times> session" where
  "read_file s = (tips_csv s, s)"

definition get_input :: "(inputs \<Rightarrow> 'a) \<Rightarrow> session \<Rightarrow> 'a \<times> session" where
  "get_input name s = (name (input s), s)"

subsection \<open>\<^verbatim>\<open>tips_data\<close>\<close>

text \<open>
  The reactive calculation, statement by statement, with the session threaded through
  every read. \<^verbatim>\<open>input.size()\<close> is read twice, as in the source.
\<close>

definition tips_data :: "session \<Rightarrow> row list \<times> session" where
  "tips_data s0 =
    (let (tips, s1) = read_file s0;
         (bill, s2) = get_input input_total_bill s1;
         idx1 = series_between (column total_bill tips) (fst bill) (snd bill);
         (sel_time, s3) = get_input input_time s2;
         idx2 = series_isin (column time tips) sel_time;
         (sel_sex, s4) = get_input input_sex s3;
         idx3 = series_isin (column sex tips) sel_sex;
         (sel_smoker, s5) = get_input input_smoker s4;
         idx4 = series_isin (column smoker tips) sel_smoker;
         (sel_day, s6) = get_input input_day s5;
         idx5 = series_isin (column day tips) sel_day;
         (size0, s7) = get_input input_size s6;
         (size1, s8) = get_input input_size s7;
         idx6 = series_between (column size_col tips) (fst size0) (snd size1)
     in (getitem_mask tips
           (series_and (series_and (series_and (series_and (series_and idx1 idx2) idx3) idx4) idx5) idx6),
         s8))"

text \<open>
  The filter as a function of a frame and of input values: \<^verbatim>\<open>tips_data\<close> run in the
  session that holds them.
\<close>

abbreviation filtered :: "row list \<Rightarrow> inputs \<Rightarrow> row list" where
  "filtered rows st \<equiv> fst (tips_data \<lparr>tips_csv = rows, input = st\<rparr>)"

text \<open>The six conditions of \<^verbatim>\<open>tips_data\<close> on one row, in the order of the masks.\<close>

definition keeps :: "inputs \<Rightarrow> row \<Rightarrow> bool" where
  "keeps st r \<longleftrightarrow>
     ((((((fst (input_total_bill st) \<le> total_bill r \<and> total_bill r \<le> snd (input_total_bill st))
       \<and> time r \<in> set (input_time st))
       \<and> sex r \<in> set (input_sex st))
       \<and> smoker r \<in> set (input_smoker st))
       \<and> day r \<in> set (input_day st))
       \<and> (fst (input_size st) \<le> size_col r \<and> size_col r \<le> snd (input_size st)))"

subsection \<open>\<^verbatim>\<open>reset_filters\<close>\<close>

text \<open>
  \<^verbatim>\<open>ui.update_slider(id, value=v)\<close> and \<^verbatim>\<open>ui.update_checkbox_group(id, selected=v)\<close>
  give the input \<open>id\<close> the value \<open>v\<close> (Shiny sends it to the page, which reports it
  back as the input's new value); the input is named by its field.
\<close>

definition update_slider ::
    "(('a \<times> 'a \<Rightarrow> 'a \<times> 'a) \<Rightarrow> inputs \<Rightarrow> inputs) \<Rightarrow> 'a \<times> 'a \<Rightarrow> session \<Rightarrow> session" where
  "update_slider field v s = s\<lparr>input := field (\<lambda>_. v) (input s)\<rparr>"

definition update_checkbox_group ::
    "((string list \<Rightarrow> string list) \<Rightarrow> inputs \<Rightarrow> inputs) \<Rightarrow> string list \<Rightarrow> session \<Rightarrow> session" where
  "update_checkbox_group field selected s = s\<lparr>input := field (\<lambda>_. selected) (input s)\<rparr>"

definition reset_filters :: "session \<Rightarrow> session" where
  "reset_filters s0 =
    (let s1 = update_slider input_total_bill_update (10, 50) s0;
         s2 = update_checkbox_group input_time_update [''Lunch'', ''Dinner''] s1;
         s3 = update_checkbox_group input_sex_update [''Male'', ''Female''] s2;
         s4 = update_checkbox_group input_smoker_update [''Yes'', ''No''] s3;
         s5 = update_checkbox_group input_day_update [''Thur'', ''Fri'', ''Sat'', ''Sun''] s4;
         s6 = update_slider input_size_update (1, 6) s5
     in s6)"

text \<open>
  The values the sidebar declares for a fresh session (\<^verbatim>\<open>value=\<close> of the sliders,
  \<^verbatim>\<open>selected=\<close> of the checkbox groups).
\<close>

definition sidebar_inputs :: inputs where
  "sidebar_inputs =
     \<lparr>input_total_bill = (10, 50),
      input_time = [''Lunch'', ''Dinner''],
      input_sex = [''Male'', ''Female''],
      input_smoker = [''Yes'', ''No''],
      input_day = [''Thur'', ''Fri'', ''Sat'', ''Sun''],
      input_size = (1, 6)\<rparr>"

subsection \<open>The summary outputs\<close>

text \<open>\<^verbatim>\<open>frame.shape[0]\<close>: the number of rows.\<close>

definition shape0 :: "'a list \<Rightarrow> nat" where
  "shape0 frame = length frame"

text \<open>
  Formatting. \<^verbatim>\<open>f"{n}"\<close> of a non-negative integer is its decimal numeral.
  \<^verbatim>\<open>f"{v:.2f}"\<close> rounds the exact value of \<open>v\<close> to the nearest hundredth, a tie
  going to the even neighbour, and prints the sign (a minus for every negative value,
  also one that rounds to zero), the integer part, a point and two digits; a NaN prints
  as \<^verbatim>\<open>nan\<close>.
\<close>

definition digit_char :: "nat \<Rightarrow> char" where
  \<comment> \<open>applied to \<open>0, \<dots>, 9\<close> only\<close>
  "digit_char d = ''0123456789'' ! d"

fun str_nat :: "nat \<Rightarrow> string" where
  "str_nat n = (if n < 10 then [digit_char n] else str_nat (n div 10) @ [digit_char (n mod 10)])"

declare str_nat.simps [simp del]

definition round_half_even :: "real \<Rightarrow> int" where
  "round_half_even x =
     (let f = \<lfloor>x\<rfloor>; d = x - of_int f
      in if d < 1 / 2 then f else if 1 / 2 < d then f + 1 else if even f then f else f + 1)"

definition format_2f :: "real option \<Rightarrow> string" where
  "format_2f v =
     (case v of
        None \<Rightarrow> ''nan''
      | Some x \<Rightarrow>
          (let cents = nat (round_half_even (\<bar>x\<bar> * 100))
           in (if x < 0 then ''-'' else '''') @ str_nat (cents div 100) @ ''.''
              @ [digit_char (cents mod 100 div 10), digit_char (cents mod 10)]))"


definition series_max :: "real list \<Rightarrow> real option" where
  "series_max col = (case col of [] \<Rightarrow> None | v # vs \<Rightarrow> Some (fold max vs v))"

definition series_min :: "real list \<Rightarrow> real option" where
  "series_min col = (case col of [] \<Rightarrow> None | v # vs \<Rightarrow> Some (fold min vs v))"



definition highest_tip_text :: "row list \<Rightarrow> string" where
  "highest_tip_text data =
     (if shape0 data > 0 then
        (let highest_tip = series_max (column tip data) in ''$'' @ format_2f highest_tip)
      else ''No data available'')"

definition lowest_tip_text :: "row list \<Rightarrow> string" where
  "lowest_tip_text data =
     (if shape0 data > 0 then
        (let lowest_tip = series_min (column tip data) in ''$'' @ format_2f lowest_tip)
      else ''No data available'')"



definition highest_tip :: "session \<Rightarrow> string \<times> session" where
  "highest_tip s0 = (let (data, s1) = tips_data s0 in (highest_tip_text data, s1))"

definition lowest_tip :: "session \<Rightarrow> string \<times> session" where
  "lowest_tip s0 = (let (data, s1) = tips_data s0 in (lowest_tip_text data, s1))"

subsection \<open>The scatter plot\<close>

text \<open>
  \<^verbatim>\<open>min\<close> and \<^verbatim>\<open>max\<close> of an empty sequence raise \<^verbatim>\<open>ValueError\<close>.
\<close>

datatype py_error = ValueError

text \<open>
  A Plotly figure, as far as the program sets it: the title, the axis labels and the
  traces, each with its mode, name, line colour and the two coordinate lists.
\<close>

record trace =
  trace_mode :: string
  trace_name :: string
  trace_color :: string
  trace_x :: "real list"
  trace_y :: "real list"

record figure =
  fig_title :: string
  fig_labels :: "(string \<times> string) list"
  fig_data :: "trace list"

text \<open>
  \<^verbatim>\<open>px.scatter(data_frame, x="total_bill", y="tip", title, labels)\<close>: one trace of
  markers, a point per row. Without a frame the trace has no point.
\<close>

definition px_scatter :: "row list option \<Rightarrow> string \<Rightarrow> (string \<times> string) list \<Rightarrow> figure" where
  "px_scatter data_frame ttl labels =
     \<lparr>fig_title = ttl, fig_labels = labels,
      fig_data =
        [\<lparr>trace_mode = ''markers'', trace_name = [], trace_color = [],
          trace_x = (case data_frame of None \<Rightarrow> [] | Some frame \<Rightarrow> column total_bill frame),
          trace_y = (case data_frame of None \<Rightarrow> [] | Some frame \<Rightarrow> column tip frame)\<rparr>]\<rparr>"

text \<open>\<^verbatim>\<open>fig.add_scatter(x, y, mode, name, line=dict(color))\<close> appends a trace.\<close>

definition add_scatter ::
    "figure \<Rightarrow> real list \<Rightarrow> real list \<Rightarrow> string \<Rightarrow> string \<Rightarrow> string \<Rightarrow> figure" where
  "add_scatter fig x y md nm color =
     fig\<lparr>fig_data := fig_data fig
        @ [\<lparr>trace_mode = md, trace_name = nm, trace_color = color, trace_x = x, trace_y = y\<rparr>]\<rparr>"

text \<open>Python's \<^verbatim>\<open>min\<close> and \<^verbatim>\<open>max\<close> over a sequence: one pass, keeping the best so far.\<close>

fun py_min :: "real list \<Rightarrow> py_error + real" where
  "py_min [] = Inl ValueError"
| "py_min (v # vs) = Inr (fold (\<lambda>w m. if w < m then w else m) vs v)"

fun py_max :: "real list \<Rightarrow> py_error + real" where
  "py_max [] = Inl ValueError"
| "py_max (v # vs) = Inr (fold (\<lambda>w m. if w > m then w else m) vs v)"

text \<open>
  \<^verbatim>\<open>np.linspace(start, stop, num)\<close> with the end point included: the step is
  \<open>(stop - start) / (num - 1)\<close>, the samples are \<open>i * step + start\<close>, and the last
  sample is then set to \<open>stop\<close>.
\<close>

definition linspace :: "real \<Rightarrow> real \<Rightarrow> nat \<Rightarrow> real list" where
  "linspace start stop num =
     (let d = num - 1;
          step = (stop - start) / real d;
          y = map (\<lambda>i. real i * step + start) [0..<num]
      in if num > 1 then y[num - 1 := stop] else y)"

text \<open>
  The plot. \<^verbatim>\<open>np.polyfit(x_vals, y_vals, 1)\<close> belongs to numpy, not to the program:
  it is the parameter \<open>polyfit\<close>, a function from the two columns to the pair
  \<open>(slope, intercept)\<close>. \<open>scatter_plot_fig\<close> is the body after
  \<^verbatim>\<open>data = tips_data()\<close>; \<open>scatter_plot\<close> runs it in a session.
\<close>

definition scatter_plot_fig ::
    "(real list \<Rightarrow> real list \<Rightarrow> real \<times> real) \<Rightarrow> row list \<Rightarrow> py_error + figure" where
  "scatter_plot_fig polyfit data =
     (if shape0 data > 0 then
        (let fig = px_scatter (Some data) ''Total Bill vs Tip''
                     [(''total_bill'', ''Total Bill ($)''), (''tip'', ''Tip ($)'')];
             x_vals = column total_bill data;
             y_vals = column tip data;
             (slope, intercept) = polyfit x_vals y_vals
         in case py_min x_vals of
              Inl e \<Rightarrow> Inl e
            | Inr lo \<Rightarrow>
               (case py_max x_vals of
                  Inl e \<Rightarrow> Inl e
                | Inr hi \<Rightarrow>
                   (let line_x = linspace lo hi 100;
                        line_y = map (\<lambda>x. slope * x + intercept) line_x
                    in Inr (add_scatter fig line_x line_y ''lines'' ''Line of Best Fit'' ''red''))))
      else Inr (px_scatter None ''No data available'' []))"

definition scatter_plot ::
    "(real list \<Rightarrow> real list \<Rightarrow> real \<times> real) \<Rightarrow> session \<Rightarrow> (py_error + figure) \<times> session" where
  "scatter_plot polyfit s0 = (let (data, s1) = tips_data s0 in (scatter_plot_fig polyfit data, s1))"







section \<open>Properties of the filter\<close>

lemma series_between_column:
  "series_between (column f rows) lo hi = map (\<lambda>r. lo \<le> f r \<and> f r \<le> hi) rows"
  by (simp add: series_between_def column_def)

lemma series_isin_column:
  "series_isin (column f rows) vals = map (\<lambda>r. f r \<in> set vals) rows"
  by (simp add: series_isin_def column_def)

lemma series_and_map:
  "series_and (map P xs) (map Q xs) = map (\<lambda>x. P x \<and> Q x) xs"
  by (induction xs) (simp_all add: series_and_def)

lemma getitem_mask_map:
  "getitem_mask xs (map P xs) = filter P xs"
  by (induction xs) (simp_all add: getitem_mask_def)

lemma tips_data_filter:
  "tips_data s = (filter (keeps (input s)) (tips_csv s), s)"
  unfolding tips_data_def read_file_def get_input_def Let_def prod.case fst_conv snd_conv
    series_between_column series_isin_column series_and_map getitem_mask_map keeps_def
  by (rule refl)

lemma filtered_filter: "filtered rows st = filter (keeps st) rows"
  by (simp add: tips_data_filter)

text \<open>
  C1. For every frame and all input values, the filter returns exactly the rows that meet
  all six conditions at once: the bill within the closed bill range, time, sex, smoker
  and day each among the ticked labels, the party size within the closed size range. The
  rows come in frame order; a row is in the result if and only if it is in the frame and
  meets the six conditions, so the result is a part of the frame.
\<close>

theorem tips_data_exactly_the_matching_rows:
  "filtered rows st =
     filter (\<lambda>r. fst (input_total_bill st) \<le> total_bill r \<and> total_bill r \<le> snd (input_total_bill st)
               \<and> time r \<in> set (input_time st)
               \<and> sex r \<in> set (input_sex st)
               \<and> smoker r \<in> set (input_smoker st)
               \<and> day r \<in> set (input_day st)
               \<and> fst (input_size st) \<le> size_col r \<and> size_col r \<le> snd (input_size st)) rows
   \<and> set (filtered rows st) =
       {r \<in> set rows.
          fst (input_total_bill st) \<le> total_bill r \<and> total_bill r \<le> snd (input_total_bill st)
          \<and> time r \<in> set (input_time st)
          \<and> sex r \<in> set (input_sex st)
          \<and> smoker r \<in> set (input_smoker st)
          \<and> day r \<in> set (input_day st)
          \<and> fst (input_size st) \<le> size_col r \<and> size_col r \<le> snd (input_size st)}
   \<and> set (filtered rows st) \<subseteq> set rows"
proof -
  have k: "keeps st = (\<lambda>r. fst (input_total_bill st) \<le> total_bill r \<and> total_bill r \<le> snd (input_total_bill st)
               \<and> time r \<in> set (input_time st)
               \<and> sex r \<in> set (input_sex st)
               \<and> smoker r \<in> set (input_smoker st)
               \<and> day r \<in> set (input_day st)
               \<and> fst (input_size st) \<le> size_col r \<and> size_col r \<le> snd (input_size st))"
    by (rule ext) (simp add: keeps_def conj_assoc)
  have f: "filtered rows st = filter (keeps st) rows"
    by (rule filtered_filter)
  show ?thesis
    unfolding f k by auto
qed

lemma count_list_filter_le: "count_list (filter P xs) x \<le> count_list xs x"
  by (induction xs) simp_all

lemma filter_weaker:
  assumes "\<And>x. x \<in> set xs \<Longrightarrow> P x \<Longrightarrow> Q x"
  shows "filter P xs = filter P (filter Q xs)"
proof -
  have "filter (\<lambda>x. Q x \<and> P x) xs = filter P xs"
    by (rule filter_cong) (use assms in auto)
  then show ?thesis by simp
qed

text \<open>
  C6. If any one of the four checkbox groups has no label ticked, the filter returns the
  empty frame, whatever the frame and the other five inputs are. The result is a value
  (the empty list), not an error.
\<close>

theorem tips_data_empty_selection:
  assumes "input_time st = [] \<or> input_sex st = [] \<or> input_smoker st = [] \<or> input_day st = []"
  shows "filtered rows st = []"
proof -
  have "\<not> keeps st r" for r
    using assms by (auto simp: keeps_def)
  then show ?thesis
    by (simp add: filtered_filter)
qed

text \<open>
  A frame of one Saturday dinner that the default inputs let through; it is dropped as
  soon as one of the four groups has no label ticked.
\<close>

theorem tips_data_empty_selection_witness:
  "filtered
     [\<lparr>total_bill = 20, tip = 3, sex = ''Male'', smoker = ''No'', day = ''Sat'',
       time = ''Dinner'', size_col = 2\<rparr>]
     \<lparr>input_total_bill = (10, 50), input_time = [],
      input_sex = [''Male'', ''Female''], input_smoker = [''Yes'', ''No''],
      input_day = [''Thur'', ''Fri'', ''Sat'', ''Sun''], input_size = (1, 6)\<rparr> = []
   \<and> filtered
     [\<lparr>total_bill = 20, tip = 3, sex = ''Male'', smoker = ''No'', day = ''Sat'',
       time = ''Dinner'', size_col = 2\<rparr>]
     \<lparr>input_total_bill = (10, 50), input_time = [''Lunch'', ''Dinner''],
      input_sex = [], input_smoker = [''Yes'', ''No''],
      input_day = [''Thur'', ''Fri'', ''Sat'', ''Sun''], input_size = (1, 6)\<rparr> = []
   \<and> filtered
     [\<lparr>total_bill = 20, tip = 3, sex = ''Male'', smoker = ''No'', day = ''Sat'',
       time = ''Dinner'', size_col = 2\<rparr>]
     \<lparr>input_total_bill = (10, 50), input_time = [''Lunch'', ''Dinner''],
      input_sex = [''Male'', ''Female''], input_smoker = [],
      input_day = [''Thur'', ''Fri'', ''Sat'', ''Sun''], input_size = (1, 6)\<rparr> = []
   \<and> filtered
     [\<lparr>total_bill = 20, tip = 3, sex = ''Male'', smoker = ''No'', day = ''Sat'',
       time = ''Dinner'', size_col = 2\<rparr>]
     \<lparr>input_total_bill = (10, 50), input_time = [''Lunch'', ''Dinner''],
      input_sex = [''Male'', ''Female''], input_smoker = [''Yes'', ''No''],
      input_day = [], input_size = (1, 6)\<rparr> = []
   \<and> filtered
     [\<lparr>total_bill = 20, tip = 3, sex = ''Male'', smoker = ''No'', day = ''Sat'',
       time = ''Dinner'', size_col = 2\<rparr>]
     \<lparr>input_total_bill = (10, 50), input_time = [''Lunch'', ''Dinner''],
      input_sex = [''Male'', ''Female''], input_smoker = [''Yes'', ''No''],
      input_day = [''Thur'', ''Fri'', ''Sat'', ''Sun''], input_size = (1, 6)\<rparr>
     = [\<lparr>total_bill = 20, tip = 3, sex = ''Male'', smoker = ''No'', day = ''Sat'',
         time = ''Dinner'', size_col = 2\<rparr>]"
proof (intro conjI)
  show "filtered
     [\<lparr>total_bill = 20, tip = 3, sex = ''Male'', smoker = ''No'', day = ''Sat'',
       time = ''Dinner'', size_col = 2\<rparr>]
     \<lparr>input_total_bill = (10, 50), input_time = [''Lunch'', ''Dinner''],
      input_sex = [''Male'', ''Female''], input_smoker = [''Yes'', ''No''],
      input_day = [''Thur'', ''Fri'', ''Sat'', ''Sun''], input_size = (1, 6)\<rparr>
     = [\<lparr>total_bill = 20, tip = 3, sex = ''Male'', smoker = ''No'', day = ''Sat'',
         time = ''Dinner'', size_col = 2\<rparr>]"
    by (simp add: tips_data_filter keeps_def)
qed (rule tips_data_empty_selection, simp)+

text \<open>
  C7. The filter keeps the order of the frame: its result is a subsequence of the frame
  (obtained by deleting rows and nothing else), so no row occurs more often in the result
  than in the frame.
\<close>

theorem tips_data_order_preserving:
  "subseq (filtered rows st) rows
   \<and> count_list (filtered rows st) r \<le> count_list rows r"
  by (simp add: filtered_filter count_list_filter_le)

text \<open>
  C8. The filter is idempotent: run on its own result with the same inputs, it returns
  that result unchanged.
\<close>

theorem tips_data_idempotent:
  "filtered (filtered rows st) st = filtered rows st"
  by (simp add: filtered_filter)

text \<open>
  C10. The filter is monotone in the inputs. If the bill range and the size range of
  \<open>st1\<close> lie within those of \<open>st2\<close> and every label ticked in \<open>st1\<close> is ticked in
  \<open>st2\<close>, then the result under \<open>st1\<close> is a subsequence of the result under
  \<open>st2\<close>; in particular every row kept under \<open>st1\<close> is kept under \<open>st2\<close>.
\<close>

theorem tips_data_monotone:
  assumes "{fst (input_total_bill st1) .. snd (input_total_bill st1)}
             \<subseteq> {fst (input_total_bill st2) .. snd (input_total_bill st2)}"
    and "{fst (input_size st1) .. snd (input_size st1)}
             \<subseteq> {fst (input_size st2) .. snd (input_size st2)}"
    and "set (input_time st1) \<subseteq> set (input_time st2)"
    and "set (input_sex st1) \<subseteq> set (input_sex st2)"
    and "set (input_smoker st1) \<subseteq> set (input_smoker st2)"
    and "set (input_day st1) \<subseteq> set (input_day st2)"
  shows "subseq (filtered rows st1) (filtered rows st2)
         \<and> set (filtered rows st1) \<subseteq> set (filtered rows st2)"
proof -
  have imp: "keeps st2 r" if k: "keeps st1 r" for r
  proof -
    from k have "total_bill r \<in> {fst (input_total_bill st1) .. snd (input_total_bill st1)}"
      and "size_col r \<in> {fst (input_size st1) .. snd (input_size st1)}"
      by (simp_all add: keeps_def)
    with assms(1,2)
    have "total_bill r \<in> {fst (input_total_bill st2) .. snd (input_total_bill st2)}"
      and "size_col r \<in> {fst (input_size st2) .. snd (input_size st2)}"
      by blast+
    moreover from k assms(3-6)
    have "time r \<in> set (input_time st2)" "sex r \<in> set (input_sex st2)"
      "smoker r \<in> set (input_smoker st2)" "day r \<in> set (input_day st2)"
      by (auto simp: keeps_def)
    ultimately show ?thesis
      by (simp add: keeps_def)
  qed
  have "filter (keeps st1) rows = filter (keeps st1) (filter (keeps st2) rows)"
    by (rule filter_weaker) (rule imp)
  then have eq: "filtered rows st1 = filter (keeps st1) (filtered rows st2)"
    by (simp only: filtered_filter)
  have "subseq (filter (keeps st1) (filtered rows st2)) (filtered rows st2)"
    by (rule subseq_filter_left)
  moreover have "set (filter (keeps st1) (filtered rows st2)) \<subseteq> set (filtered rows st2)"
    by (rule filter_is_subset)
  ultimately show ?thesis
    unfolding eq by (rule conjI)
qed

text \<open>
  Two rows under a narrow and a wide choice of inputs: the narrow one keeps the second
  row only, the wide one keeps both.
\<close>

theorem tips_data_monotone_witness:
  "subseq
     (filtered
        [\<lparr>total_bill = 20, tip = 3, sex = ''Male'', smoker = ''No'', day = ''Sat'',
          time = ''Dinner'', size_col = 2\<rparr>,
         \<lparr>total_bill = 30, tip = 5, sex = ''Female'', smoker = ''No'', day = ''Sun'',
          time = ''Dinner'', size_col = 4\<rparr>]
        \<lparr>input_total_bill = (25, 50), input_time = [''Dinner''],
         input_sex = [''Female''], input_smoker = [''No''],
         input_day = [''Sun''], input_size = (2, 5)\<rparr>)
     (filtered
        [\<lparr>total_bill = 20, tip = 3, sex = ''Male'', smoker = ''No'', day = ''Sat'',
          time = ''Dinner'', size_col = 2\<rparr>,
         \<lparr>total_bill = 30, tip = 5, sex = ''Female'', smoker = ''No'', day = ''Sun'',
          time = ''Dinner'', size_col = 4\<rparr>]
        \<lparr>input_total_bill = (10, 50), input_time = [''Lunch'', ''Dinner''],
         input_sex = [''Male'', ''Female''], input_smoker = [''Yes'', ''No''],
         input_day = [''Thur'', ''Fri'', ''Sat'', ''Sun''], input_size = (1, 6)\<rparr>)
   \<and> filtered
        [\<lparr>total_bill = 20, tip = 3, sex = ''Male'', smoker = ''No'', day = ''Sat'',
          time = ''Dinner'', size_col = 2\<rparr>,
         \<lparr>total_bill = 30, tip = 5, sex = ''Female'', smoker = ''No'', day = ''Sun'',
          time = ''Dinner'', size_col = 4\<rparr>]
        \<lparr>input_total_bill = (25, 50), input_time = [''Dinner''],
         input_sex = [''Female''], input_smoker = [''No''],
         input_day = [''Sun''], input_size = (2, 5)\<rparr>
      = [\<lparr>total_bill = 30, tip = 5, sex = ''Female'', smoker = ''No'', day = ''Sun'',
          time = ''Dinner'', size_col = 4\<rparr>]
   \<and> filtered
        [\<lparr>total_bill = 20, tip = 3, sex = ''Male'', smoker = ''No'', day = ''Sat'',
          time = ''Dinner'', size_col = 2\<rparr>,
         \<lparr>total_bill = 30, tip = 5, sex = ''Female'', smoker = ''No'', day = ''Sun'',
          time = ''Dinner'', size_col = 4\<rparr>]
        \<lparr>input_total_bill = (10, 50), input_time = [''Lunch'', ''Dinner''],
         input_sex = [''Male'', ''Female''], input_smoker = [''Yes'', ''No''],
         input_day = [''Thur'', ''Fri'', ''Sat'', ''Sun''], input_size = (1, 6)\<rparr>
      = [\<lparr>total_bill = 20, tip = 3, sex = ''Male'', smoker = ''No'', day = ''Sat'',
          time = ''Dinner'', size_col = 2\<rparr>,
         \<lparr>total_bill = 30, tip = 5, sex = ''Female'', smoker = ''No'', day = ''Sun'',
          time = ''Dinner'', size_col = 4\<rparr>]"
proof (intro conjI)
  show "subseq
     (filtered
        [\<lparr>total_bill = 20, tip = 3, sex = ''Male'', smoker = ''No'', day = ''Sat'',
          time = ''Dinner'', size_col = 2\<rparr>,
         \<lparr>total_bill = 30, tip = 5, sex = ''Female'', smoker = ''No'', day = ''Sun'',
          time = ''Dinner'', size_col = 4\<rparr>]
        \<lparr>input_total_bill = (25, 50), input_time = [''Dinner''],
         input_sex = [''Female''], input_smoker = [''No''],
         input_day = [''Sun''], input_size = (2, 5)\<rparr>)
     (filtered
        [\<lparr>total_bill = 20, tip = 3, sex = ''Male'', smoker = ''No'', day = ''Sat'',
          time = ''Dinner'', size_col = 2\<rparr>,
         \<lparr>total_bill = 30, tip = 5, sex = ''Female'', smoker = ''No'', day = ''Sun'',
          time = ''Dinner'', size_col = 4\<rparr>]
        \<lparr>input_total_bill = (10, 50), input_time = [''Lunch'', ''Dinner''],
         input_sex = [''Male'', ''Female''], input_smoker = [''Yes'', ''No''],
         input_day = [''Thur'', ''Fri'', ''Sat'', ''Sun''], input_size = (1, 6)\<rparr>)"
    by (rule tips_data_monotone [THEN conjunct1]) simp_all
qed (simp_all add: tips_data_filter keeps_def)

section \<open>The session\<close>

lemma reset_filters_input:
  "reset_filters s =
     s\<lparr>input := \<lparr>input_total_bill = (10, 50),
                  input_time = [''Lunch'', ''Dinner''],
                  input_sex = [''Male'', ''Female''],
                  input_smoker = [''Yes'', ''No''],
                  input_day = [''Thur'', ''Fri'', ''Sat'', ''Sun''],
                  input_size = (1, 6)\<rparr>\<rparr>"
  by (simp add: reset_filters_def update_slider_def update_checkbox_group_def)

text \<open>
  C5. After \<^verbatim>\<open>reset_filters\<close> the inputs are the default snapshot, whatever they were
  before: bill range \<open>[10, 50]\<close>, both service times, both sexes, both smoker labels,
  the four days, size range \<open>[1, 6]\<close>. These are the values the sidebar declares.
  The function is total: it has no failing branch.
\<close>

theorem reset_filters_default_snapshot:
  "input (reset_filters s) =
     \<lparr>input_total_bill = (10, 50),
      input_time = [''Lunch'', ''Dinner''],
      input_sex = [''Male'', ''Female''],
      input_smoker = [''Yes'', ''No''],
      input_day = [''Thur'', ''Fri'', ''Sat'', ''Sun''],
      input_size = (1, 6)\<rparr>
   \<and> set (input_time (input (reset_filters s))) = {''Lunch'', ''Dinner''}
   \<and> set (input_sex (input (reset_filters s))) = {''Male'', ''Female''}
   \<and> set (input_smoker (input (reset_filters s))) = {''Yes'', ''No''}
   \<and> set (input_day (input (reset_filters s))) = {''Thur'', ''Fri'', ''Sat'', ''Sun''}
   \<and> input (reset_filters s) = sidebar_inputs"
  by (simp add: reset_filters_input sidebar_inputs_def)

text \<open>
  C9. \<^verbatim>\<open>tips_data\<close> changes nothing it reads: the session it returns is the session
  it was given, so the inputs and every row of the loaded frame are as before. The
  inputs change through \<^verbatim>\<open>reset_filters\<close> (or the user), which leaves the frame
  alone.
\<close>

theorem tips_data_no_side_effect:
  "snd (tips_data s) = s
   \<and> input (snd (tips_data s)) = input s
   \<and> tips_csv (snd (tips_data s)) = tips_csv s
   \<and> tips_csv (reset_filters s) = tips_csv s"
  by (simp add: tips_data_filter reset_filters_input)

section \<open>The summary outputs\<close>












section \<open>The scatter plot\<close>













lemma py_min_Min: "xs \<noteq> [] \<Longrightarrow> py_min xs = Inr (Min (set xs))"
proof -
  assume "xs \<noteq> []"
  then obtain v vs where c: "xs = v # vs" by (cases xs) auto
  have f: "(\<lambda>w m. if w < m then w else m) = (min :: real \<Rightarrow> real \<Rightarrow> real)"
    by (auto simp: fun_eq_iff min_def)
  have "fold min vs v = Min (set (v # vs))"
    by (rule Min.set_eq_fold [symmetric])
  then show ?thesis
    by (simp add: c f)
qed

lemma py_max_Max: "xs \<noteq> [] \<Longrightarrow> py_max xs = Inr (Max (set xs))"
proof -
  assume "xs \<noteq> []"
  then obtain v vs where c: "xs = v # vs" by (cases xs) auto
  have f: "(\<lambda>w m. if w > m then w else m) = (max :: real \<Rightarrow> real \<Rightarrow> real)"
    by (auto simp: fun_eq_iff max_def)
  have "fold max vs v = Max (set (v # vs))"
    by (rule Max.set_eq_fold [symmetric])
  then show ?thesis
    by (simp add: c f)
qed

lemma linspace_even:
  assumes "1 < num"
  shows "linspace start stop num =
     map (\<lambda>i. start + real i * ((stop - start) / real (num - 1))) [0..<num]"
proof -
  define y where "y = map (\<lambda>i. real i * ((stop - start) / real (num - 1)) + start) [0..<num]"
  have "y ! (num - 1) = stop"
    using assms by (simp add: y_def)
  then have "y[num - 1 := stop] = y"
    by (metis list_update_id)
  with assms have "linspace start stop num = y"
    by (simp add: linspace_def y_def)
  then show ?thesis
    by (simp add: y_def add.commute)
qed

lemma scatter_plot_fig_eq:
  "scatter_plot_fig polyfit data =
     (if data = [] then Inr (px_scatter None ''No data available'' [])
      else
        (let c = polyfit (column total_bill data) (column tip data);
             lo = Min (total_bill ` set data);
             hi = Max (total_bill ` set data);
             line_x = map (\<lambda>i. lo + real i * ((hi - lo) / 99)) [0..<100];
             line_y = map (\<lambda>x. fst c * x + snd c) line_x
         in Inr (add_scatter
                   (px_scatter (Some data) ''Total Bill vs Tip''
                      [(''total_bill'', ''Total Bill ($)''), (''tip'', ''Tip ($)'')])
                   line_x line_y ''lines'' ''Line of Best Fit'' ''red'')))"
proof (cases "data = []")
  case True
  then show ?thesis
    by (simp add: scatter_plot_fig_def shape0_def)
next
  case False
  then have ne: "column total_bill data \<noteq> []"
    by (simp add: column_def)
  have s: "set (column total_bill data) = total_bill ` set data"
    by (simp add: column_def)
  have l: "linspace lo hi 100 = map (\<lambda>i. lo + real i * ((hi - lo) / 99)) [0..<100]" for lo hi
    using linspace_even [of 100 lo hi] by simp
  from False show ?thesis
    unfolding scatter_plot_fig_def shape0_def Let_def py_min_Min [OF ne] py_max_Max [OF ne] s l
    by (simp add: case_prod_unfold)
qed

text \<open>
  C2 (as the code has it). The plot is the placeholder titled \<^verbatim>\<open>No data available\<close>
  if and only if the filtered frame is empty. On every non-empty frame, also one of a
  single row or of rows that share one \<open>total_bill\<close>, the fit is called on the two
  columns and the figure gets the line of 100 samples from the least to the greatest
  \<open>total_bill\<close>, with \<open>y = slope * x + intercept\<close> for the pair the fit returned;
  \<^verbatim>\<open>min\<close> and \<^verbatim>\<open>max\<close> do not raise there. The plot reads the filtered frame and
  leaves the session as it was.
\<close>

theorem scatter_plot_placeholder_iff_empty:
  "(scatter_plot_fig polyfit data = Inr (px_scatter None ''No data available'' []) \<longleftrightarrow> data = [])
   \<and> scatter_plot_fig polyfit data =
       (if data = [] then Inr (px_scatter None ''No data available'' [])
        else
          (let c = polyfit (column total_bill data) (column tip data);
               lo = Min (total_bill ` set data);
               hi = Max (total_bill ` set data);
               line_x = map (\<lambda>i. lo + real i * ((hi - lo) / 99)) [0..<100];
               line_y = map (\<lambda>x. fst c * x + snd c) line_x
           in Inr (add_scatter
                     (px_scatter (Some data) ''Total Bill vs Tip''
                        [(''total_bill'', ''Total Bill ($)''), (''tip'', ''Tip ($)'')])
                     line_x line_y ''lines'' ''Line of Best Fit'' ''red'')))
   \<and> scatter_plot polyfit s = (scatter_plot_fig polyfit (fst (tips_data s)), s)"
proof -
  have "scatter_plot_fig polyfit data = Inr (px_scatter None ''No data available'' []) \<longleftrightarrow> data = []"
    by (simp add: scatter_plot_fig_eq Let_def add_scatter_def px_scatter_def)
  moreover have "scatter_plot polyfit s = (scatter_plot_fig polyfit (fst (tips_data s)), s)"
    by (simp add: scatter_plot_def tips_data_filter)
  ultimately show ?thesis
    using scatter_plot_fig_eq [of polyfit data] by (intro conjI) assumption+
qed

text \<open>
  C2 as stated fails: a frame of one row has a single \<open>total_bill\<close> value, and the
  plot is not the placeholder. With a fit that returns a line through the one point
  \<open>(20, 3)\<close>, the figure carries the marker and a fitted line of 100 samples, all at
  that point.
\<close>

theorem scatter_plot_single_row_counterexample:
  "card (total_bill ` set [\<lparr>total_bill = 20, tip = 3, sex = ''Male'', smoker = ''No'',
         day = ''Sat'', time = ''Dinner'', size_col = 2\<rparr>]) = 1
   \<and> scatter_plot_fig (\<lambda>x_vals y_vals. (3 / 40, 3 / 2))
       [\<lparr>total_bill = 20, tip = 3, sex = ''Male'', smoker = ''No'',
         day = ''Sat'', time = ''Dinner'', size_col = 2\<rparr>]
     = Inr \<lparr>fig_title = ''Total Bill vs Tip'',
            fig_labels = [(''total_bill'', ''Total Bill ($)''), (''tip'', ''Tip ($)'')],
            fig_data =
              [\<lparr>trace_mode = ''markers'', trace_name = [], trace_color = [],
                trace_x = [20], trace_y = [3]\<rparr>,
               \<lparr>trace_mode = ''lines'', trace_name = ''Line of Best Fit'', trace_color = ''red'',
                trace_x = replicate 100 20, trace_y = replicate 100 3\<rparr>]\<rparr>
   \<and> scatter_plot_fig (\<lambda>x_vals y_vals. (3 / 40, 3 / 2))
       [\<lparr>total_bill = 20, tip = 3, sex = ''Male'', smoker = ''No'',
         day = ''Sat'', time = ''Dinner'', size_col = 2\<rparr>]
     \<noteq> Inr (px_scatter None ''No data available'' [])"
  by (simp add: scatter_plot_fig_eq Let_def add_scatter_def px_scatter_def column_def
      comp_def map_replicate_const)



end
